theory Spec2Isabelle
  imports Main
begin

section \<open>The environment: path strings and a file system\<close>

text \<open>
  \<^verbatim>\<open>polite/paths.py\<close> is written against \<^verbatim>\<open>os.path\<close>, \<^verbatim>\<open>os.makedirs\<close> and
  \<^verbatim>\<open>shutil.copy\<close>. These library calls are modelled here by their documented behaviour
  on POSIX paths. A file system maps the location of a node, the list of names leading to
  it from the root, to a directory or to a regular file with its content. Symbolic links,
  permissions, special files and resource exhaustion are outside the model, and relative
  paths are resolved from the root.
\<close>

datatype node = Dir | File string

type_synonym location = "string list"

type_synonym filesystem = "location \<rightharpoonup> node"

datatype exn =
    ValueError string
  | KeyError string
  | IOError
  | OSError
  | ShutilError

text \<open>\<^verbatim>\<open>KeyError\<close> is the only one of these that derives from \<^verbatim>\<open>LookupError\<close>.\<close>

fun is_LookupError :: "exn \<Rightarrow> bool" where
  "is_LookupError (KeyError k) = True"
| "is_LookupError e = False"

subsection \<open>String functions of \<^verbatim>\<open>posixpath\<close>\<close>

text \<open>\<^verbatim>\<open>p.split('/')\<close>: the components of a path; never the empty list.\<close>

fun splitc :: "string \<Rightarrow> string list" where
  "splitc [] = [[]]"
| "splitc (x # xs) =
     (if x = CHR ''/'' then [] # splitc xs
      else (x # hd (splitc xs)) # tl (splitc xs))"

text \<open>
  \<^verbatim>\<open>posixpath.join(a, b)\<close>: an absolute \<open>b\<close> replaces \<open>a\<close>; otherwise \<open>b\<close> is
  appended, after a separator unless \<open>a\<close> is empty or ends with one.
\<close>

definition os_path_join :: "string \<Rightarrow> string \<Rightarrow> string" where
  "os_path_join a b =
     (if b \<noteq> [] \<and> hd b = CHR ''/'' then b
      else if a = [] \<or> last a = CHR ''/'' then a @ b
      else a @ ''/'' @ b)"

text \<open>\<^verbatim>\<open>posixpath.join(a, *p)\<close> folds the binary join over the further segments.\<close>

definition os_path_join_all :: "string \<Rightarrow> string list \<Rightarrow> string" where
  "os_path_join_all a ps = foldl os_path_join a ps"

text \<open>\<^verbatim>\<open>posixpath.basename(p)\<close>: what follows the last separator.\<close>

definition os_path_basename :: "string \<Rightarrow> string" where
  "os_path_basename p = last (splitc p)"

text \<open>\<^verbatim>\<open>s.rstrip('/')\<close>.\<close>

definition rstrip_slash :: "string \<Rightarrow> string" where
  "rstrip_slash s = rev (dropWhile (\<lambda>c. c = CHR ''/'') (rev s))"

text \<open>
  \<^verbatim>\<open>posixpath.dirname(p)\<close>: everything up to and including the last separator, with
  trailing separators removed unless nothing else remains. \<^verbatim>\<open>posixpath.split(p)\<close> is the
  pair of \<^verbatim>\<open>dirname(p)\<close> and \<^verbatim>\<open>basename(p)\<close>.
\<close>

definition os_path_dirname :: "string \<Rightarrow> string" where
  "os_path_dirname p =
     (let head = take (length p - length (os_path_basename p)) p
      in if head \<noteq> [] \<and> rstrip_slash head \<noteq> [] then rstrip_slash head else head)"

text \<open>\<^verbatim>\<open>'/'.join(comps)\<close>.\<close>

fun join_slash :: "string list \<Rightarrow> string" where
  "join_slash [] = []"
| "join_slash [c] = c"
| "join_slash (c # cs) = c @ ''/'' @ join_slash cs"

text \<open>
  The loop of \<^verbatim>\<open>posixpath.normpath\<close> over the components: empty and \<^verbatim>\<open>.\<close> components
  are dropped, \<^verbatim>\<open>..\<close> removes the component before it where there is one to remove.
\<close>

fun normpath_comps :: "bool \<Rightarrow> string list \<Rightarrow> string list \<Rightarrow> string list" where
  "normpath_comps initial_slashes [] new_comps = new_comps"
| "normpath_comps initial_slashes (c # comps) new_comps =
     (if c = [] \<or> c = ''.'' then normpath_comps initial_slashes comps new_comps
      else if c \<noteq> ''..'' \<or> (\<not> initial_slashes \<and> new_comps = [])
                \<or> (new_comps \<noteq> [] \<and> last new_comps = ''..'')
        then normpath_comps initial_slashes comps (new_comps @ [c])
      else if new_comps \<noteq> [] then normpath_comps initial_slashes comps (butlast new_comps)
      else normpath_comps initial_slashes comps new_comps)"

definition os_path_normpath :: "string \<Rightarrow> string" where
  "os_path_normpath path =
     (if path = [] then ''.''
      else
        let initial_slashes =
              (if take 1 path \<noteq> ''/'' then 0
               else if take 2 path = ''//'' \<and> take 3 path \<noteq> ''///'' then 2
               else (1::nat));
            comps = normpath_comps (initial_slashes \<noteq> 0) (splitc path) [];
            joined = replicate initial_slashes (CHR ''/'') @ join_slash comps
        in if joined = [] then ''.'' else joined)"

text \<open>
  \<^verbatim>\<open>posixpath.abspath\<close> joins a relative path to the working directory, here the root,
  and normalises.
\<close>

definition os_path_abspath :: "string \<Rightarrow> string" where
  "os_path_abspath path =
     os_path_normpath (if take 1 path = ''/'' then path else os_path_join ''/'' path)"

text \<open>
  The loop of \<^verbatim>\<open>posixpath._joinrealpath\<close> over the components of the rest of the
  path, with no component a symbolic link: empty and \<^verbatim>\<open>.\<close> components are skipped,
  \<^verbatim>\<open>..\<close> splits the last component off the path built so far, a name is joined to it.
\<close>

fun joinrealpath :: "string \<Rightarrow> string list \<Rightarrow> string" where
  "joinrealpath path [] = path"
| "joinrealpath path (name # rest) =
     (if name = [] \<or> name = ''.'' then joinrealpath path rest
      else if name = ''..'' then
        (if path \<noteq> [] then
           (if os_path_basename path = ''..''
            then joinrealpath
                   (os_path_join (os_path_join (os_path_dirname path) ''..'') ''..'') rest
            else joinrealpath (os_path_dirname path) rest)
         else joinrealpath ''..'' rest)
      else joinrealpath (os_path_join path name) rest)"

text \<open>
  \<^verbatim>\<open>posixpath.realpath\<close>: an absolute path is walked from \<^verbatim>\<open>/\<close> without its first
  character, a relative one from the empty path; the result is made absolute.
\<close>

definition os_path_realpath :: "string \<Rightarrow> string" where
  "os_path_realpath filename =
     os_path_abspath
       (if take 1 filename = ''/'' then joinrealpath ''/'' (splitc (tl filename))
        else joinrealpath [] (splitc filename))"

subsection \<open>Path resolution\<close>

text \<open>
  One step of the walk along a path: an empty component (a doubled or trailing
  separator) and \<^verbatim>\<open>.\<close> stay, \<^verbatim>\<open>..\<close> goes up, a name goes down.
\<close>

definition step :: "location \<Rightarrow> string \<Rightarrow> location" where
  "step cur c =
     (if c = [] \<or> c = ''.'' then cur
      else if c = ''..'' then butlast cur
      else cur @ [c])"

text \<open>
  The walk takes a step only from a directory, so a path through a regular file or
  through a missing directory resolves to nothing, as does the empty path.
\<close>

fun walk :: "filesystem \<Rightarrow> location \<Rightarrow> string list \<Rightarrow> location option" where
  "walk fs cur [] = Some cur"
| "walk fs cur (c # cs) =
     (if fs cur = Some Dir then walk fs (step cur c) cs else None)"

definition resolve :: "filesystem \<Rightarrow> string \<Rightarrow> location option" where
  "resolve fs p = (if p = [] then None else walk fs [] (splitc p))"

definition lookup :: "filesystem \<Rightarrow> string \<Rightarrow> node option" where
  "lookup fs p = (case resolve fs p of None \<Rightarrow> None | Some loc \<Rightarrow> fs loc)"

definition os_path_isdir :: "string \<Rightarrow> filesystem \<Rightarrow> bool" where
  "os_path_isdir p fs = (lookup fs p = Some Dir)"

definition os_path_isfile :: "string \<Rightarrow> filesystem \<Rightarrow> bool" where
  "os_path_isfile p fs =
     (case lookup fs p of Some (File content) \<Rightarrow> True | _ \<Rightarrow> False)"

text \<open>\<^verbatim>\<open>os.path.samefile\<close>: both paths name an existing node, and the same one.\<close>

definition os_path_samefile :: "string \<Rightarrow> string \<Rightarrow> filesystem \<Rightarrow> bool" where
  "os_path_samefile p q fs =
     (case (resolve fs p, resolve fs q) of
        (Some l, Some l') \<Rightarrow> l = l' \<and> fs l \<noteq> None
      | _ \<Rightarrow> False)"

subsection \<open>\<^verbatim>\<open>os.makedirs\<close>\<close>

text \<open>
  \<^verbatim>\<open>os.makedirs(name)\<close> creates the leaf directory and every missing directory on the
  way to it. It returns when it has created the leaf. It raises \<^verbatim>\<open>OSError\<close> when the
  path leads to a node that was there before the call, or through something that is not
  a directory; directories created before the \<^verbatim>\<open>raise\<close> stay.

  The walk along the components creates what is missing and returns the location it
  arrives at.
\<close>

fun makedirs_walk ::
  "filesystem \<Rightarrow> location \<Rightarrow> string list \<Rightarrow> (exn + location) \<times> filesystem" where
  "makedirs_walk fs cur [] =
     (if fs cur = Some Dir then (Inr cur, fs) else (Inl OSError, fs))"
| "makedirs_walk fs cur (c # cs) =
     (if fs cur \<noteq> Some Dir then (Inl OSError, fs)
      else if fs (step cur c) = None
        then makedirs_walk (fs(step cur c \<mapsto> Dir)) (step cur c) cs
      else makedirs_walk fs (step cur c) cs)"

definition os_makedirs :: "string \<Rightarrow> filesystem \<Rightarrow> (exn + unit) \<times> filesystem" where
  "os_makedirs name fs =
     (if name = [] then (Inl OSError, fs)
      else case makedirs_walk fs [] (splitc name) of
             (Inl e, fs') \<Rightarrow> (Inl e, fs')
           | (Inr leaf, fs') \<Rightarrow>
               if fs leaf = None then (Inr (), fs') else (Inl OSError, fs'))"

subsection \<open>\<^verbatim>\<open>shutil.copy\<close>\<close>

text \<open>
  Opening a path for writing and storing the content: the path must lead through
  directories and must not name a directory itself; a regular file there is replaced.
\<close>

definition write_file :: "string \<Rightarrow> string \<Rightarrow> filesystem \<Rightarrow> (exn + unit) \<times> filesystem" where
  "write_file p content fs =
     (case resolve fs p of
        None \<Rightarrow> (Inl IOError, fs)
      | Some loc \<Rightarrow>
          if fs loc = Some Dir then (Inl IOError, fs)
          else (Inr (), fs(loc \<mapsto> File content)))"

text \<open>
  \<^verbatim>\<open>shutil.copyfile(src, dst)\<close> refuses to copy a file onto itself, reads the source,
  which must be a regular file, and writes the destination.
\<close>

definition shutil_copyfile :: "string \<Rightarrow> string \<Rightarrow> filesystem \<Rightarrow> (exn + unit) \<times> filesystem" where
  "shutil_copyfile src dst fs =
     (if os_path_samefile src dst fs then (Inl ShutilError, fs)
      else case lookup fs src of
             Some (File content) \<Rightarrow> write_file dst content fs
           | _ \<Rightarrow> (Inl IOError, fs))"

text \<open>
  \<^verbatim>\<open>shutil.copy(src, dst)\<close>: a destination that is a directory stands for the file of
  the source's base name inside it.
\<close>

definition shutil_copy :: "string \<Rightarrow> string \<Rightarrow> filesystem \<Rightarrow> (exn + unit) \<times> filesystem" where
  "shutil_copy src dst fs =
     (let dst' = (if os_path_isdir dst fs then os_path_join dst (os_path_basename src) else dst)
      in shutil_copyfile src dst' fs)"

section \<open>\<^verbatim>\<open>polite.paths\<close>\<close>

text \<open>
  A method that changes the file system takes it and returns it with the outcome:
  \<open>Inr\<close> for a normal return, \<open>Inl\<close> for the exception raised. The file system returned
  with an exception is the one at the moment of the \<^verbatim>\<open>raise\<close>.
\<close>

subsection \<open>\<^verbatim>\<open>Directory\<close>\<close>

text \<open>The attribute \<^verbatim>\<open>_dir_path\<close> is the field \<open>dir_path\<close>.\<close>

record Directory =
  dir_path :: string

definition Directory_init :: "string \<Rightarrow> Directory" where
  "Directory_init p = \<lparr>dir_path = p\<rparr>"

definition get_path :: "Directory \<Rightarrow> string option \<Rightarrow> string" where
  "get_path self file_name =
     (case file_name of
        None \<Rightarrow> dir_path self
      | Some f \<Rightarrow> os_path_join (dir_path self) f)"

definition isdir :: "Directory \<Rightarrow> filesystem \<Rightarrow> bool" where
  "isdir self fs = os_path_isdir (dir_path self) fs"

definition isfile :: "Directory \<Rightarrow> string \<Rightarrow> filesystem \<Rightarrow> bool" where
  "isfile self file_name fs = os_path_isfile (get_path self (Some file_name)) fs"

definition makedir :: "Directory \<Rightarrow> filesystem \<Rightarrow> (exn + unit) \<times> filesystem" where
  "makedir self fs =
     (if \<not> isdir self fs then os_makedirs (get_path self None) fs
      else (Inr (), fs))"

text \<open>
  A call of one of the four methods on a \<^verbatim>\<open>Directory\<close> object, and a sequence of such
  calls on the same object, each continuing with the file system the one before left.
\<close>

datatype dir_call = Get_path "string option" | Isdir | Isfile string | Makedir

fun call :: "dir_call \<Rightarrow> Directory \<times> filesystem \<Rightarrow> Directory \<times> filesystem" where
  "call (Get_path file_name) (self, fs) = (self, fs)"
| "call Isdir (self, fs) = (self, fs)"
| "call (Isfile file_name) (self, fs) = (self, fs)"
| "call Makedir (self, fs) = (self, snd (makedir self fs))"

definition calls :: "dir_call list \<Rightarrow> Directory \<times> filesystem \<Rightarrow> Directory \<times> filesystem" where
  "calls cs st = foldl (\<lambda>st c. call c st) st cs"

subsection \<open>The three constructors derived from \<^verbatim>\<open>Directory\<close>\<close>

text \<open>Of a module object only \<^verbatim>\<open>__file__\<close> is read.\<close>

record pymodule =
  mod_file :: string

definition module_path :: "pymodule \<Rightarrow> string" where
  "module_path m = os_path_realpath (mod_file m)"

definition module_dir :: "pymodule \<Rightarrow> string" where
  "module_dir m = os_path_abspath (os_path_dirname (module_path m))"

text \<open>
  \<^verbatim>\<open>sys.modules\<close> is a dictionary from module names to modules; subscripting it with a
  name that is not a key raises \<^verbatim>\<open>KeyError\<close>.
\<close>

definition ObjDirectory_init ::
  "(string \<rightharpoonup> pymodule) \<Rightarrow> string \<Rightarrow> string list \<Rightarrow> filesystem
     \<Rightarrow> (exn + Directory) \<times> filesystem" where
  "ObjDirectory_init sys_modules module_name paths fs =
     (case sys_modules module_name of
        None \<Rightarrow> (Inl (KeyError module_name), fs)
      | Some mod_handle \<Rightarrow>
          (Inr (Directory_init (os_path_join_all (module_dir mod_handle) paths)), fs))"

text \<open>
  \<^verbatim>\<open>user_data_dir\<close> and \<^verbatim>\<open>site_data_dir\<close> come from \<^verbatim>\<open>polite/appdirs.py\<close>, which
  computes the platform's data directory for a package and a company from their names.
  They are parameters here.
\<close>

definition UserDataDirectory_init ::
  "(string \<Rightarrow> string \<Rightarrow> bool \<Rightarrow> string) \<Rightarrow> string \<Rightarrow> string \<Rightarrow> string list \<Rightarrow> filesystem
     \<Rightarrow> (exn + Directory) \<times> filesystem" where
  "UserDataDirectory_init user_data_dir package company paths fs =
     (Inr (Directory_init (os_path_join_all (user_data_dir package company True) paths)), fs)"

definition SiteDataDirectory_init ::
  "(string \<Rightarrow> string \<Rightarrow> string) \<Rightarrow> string \<Rightarrow> string \<Rightarrow> string list \<Rightarrow> filesystem
     \<Rightarrow> (exn + Directory) \<times> filesystem" where
  "SiteDataDirectory_init site_data_dir package company paths fs =
     (Inr (Directory_init (os_path_join_all (site_data_dir package company) paths)), fs)"

subsection \<open>\<^verbatim>\<open>DirectoryMap\<close>\<close>

record DirectoryMap =
  target_dir :: Directory
  source_dir :: "Directory option"
  last_copy_path :: "string option"

definition DirectoryMap_init :: "Directory \<Rightarrow> Directory option \<Rightarrow> DirectoryMap" where
  "DirectoryMap_init target source =
     \<lparr>target_dir = target, source_dir = source, last_copy_path = None\<rparr>"

definition target_exists :: "DirectoryMap \<Rightarrow> string option \<Rightarrow> filesystem \<Rightarrow> bool" where
  "target_exists self file_name fs =
     (case file_name of
        Some f \<Rightarrow> isfile (target_dir self) f fs
      | None \<Rightarrow> isdir (target_dir self) fs)"

text \<open>
  The destination path \<^verbatim>\<open>copy_file\<close> computes before it touches the file system: the
  target's path for the file name, with \<^verbatim>\<open>new_ext\<close> appended when the file is there
  and \<^verbatim>\<open>overwrite\<close> is false.
\<close>

definition dst_file_path ::
  "DirectoryMap \<Rightarrow> string \<Rightarrow> bool \<Rightarrow> string \<Rightarrow> filesystem \<Rightarrow> string" where
  "dst_file_path self file_name overwrite new_ext fs =
     (if target_exists self (Some file_name) fs \<and> \<not> overwrite
      then get_path (target_dir self) (Some file_name) @ new_ext
      else get_path (target_dir self) (Some file_name))"

definition copy_file ::
  "DirectoryMap \<Rightarrow> string \<Rightarrow> string option \<Rightarrow> bool \<Rightarrow> string \<Rightarrow> filesystem
     \<Rightarrow> (exn + unit) \<times> DirectoryMap \<times> filesystem" where
  "copy_file self src_name dst_name overwrite new_ext fs =
     (case source_dir self of
        None \<Rightarrow> (Inl (ValueError ''No source directory is given.''), self, fs)
      | Some source \<Rightarrow>
          let file_name = (case dst_name of None \<Rightarrow> src_name | Some d \<Rightarrow> d);
              dst = dst_file_path self file_name overwrite new_ext fs;
              src_file_path = get_path source (Some src_name)
          in case makedir (target_dir self) fs of
               (Inl e, fs1) \<Rightarrow> (Inl e, self, fs1)
             | (Inr u, fs1) \<Rightarrow>
                 (case shutil_copy src_file_path dst fs1 of
                    (Inl e, fs2) \<Rightarrow> (Inl e, self, fs2)
                  | (Inr v, fs2) \<Rightarrow> (Inr (), self\<lparr>last_copy_path := Some dst\<rparr>, fs2)))"

text \<open>\<^verbatim>\<open>safe_copy_file\<close> calls \<^verbatim>\<open>copy_file\<close> with its defaults for the last two arguments.\<close>

definition safe_copy_file ::
  "DirectoryMap \<Rightarrow> string \<Rightarrow> string option \<Rightarrow> filesystem
     \<Rightarrow> (exn + unit) \<times> DirectoryMap \<times> filesystem" where
  "safe_copy_file self src_name dst_name fs =
     (let file_name = (case dst_name of None \<Rightarrow> src_name | Some d \<Rightarrow> d)
      in if \<not> target_exists self (Some file_name) fs
         then copy_file self src_name dst_name False ''.new'' fs
         else (Inr (), self, fs))"

text \<open>\<^verbatim>\<open>safe_copy_file\<close> called \<open>n\<close> times in a row with the same arguments.\<close>

fun safe_copy_file_times ::
  "nat \<Rightarrow> string \<Rightarrow> string option \<Rightarrow> DirectoryMap \<times> filesystem \<Rightarrow> DirectoryMap \<times> filesystem" where
  "safe_copy_file_times 0 src_name dst_name st = st"
| "safe_copy_file_times (Suc n) src_name dst_name (self, fs) =
     safe_copy_file_times n src_name dst_name (snd (safe_copy_file self src_name dst_name fs))"

subsection \<open>Example states\<close>

text \<open>
  A packaged default \<^verbatim>\<open>/s/a\<close> and a user's edited copy \<^verbatim>\<open>/t/a\<close>; the same with an
  earlier \<^verbatim>\<open>/t/a.new\<close>; the same with a directory \<^verbatim>\<open>/t/sub\<close>; and a file system
  that holds the root only.
\<close>

definition ex_fs :: filesystem where
  "ex_fs = [[] \<mapsto> Dir, [''s''] \<mapsto> Dir, [''s'', ''a''] \<mapsto> File ''packaged'',
            [''t''] \<mapsto> Dir, [''t'', ''a''] \<mapsto> File ''edited'']"

definition ex_fs_new :: filesystem where
  "ex_fs_new = ex_fs([''t'', ''a.new''] \<mapsto> File ''stale'')"

definition ex_fs_sub :: filesystem where
  "ex_fs_sub = ex_fs([''t'', ''sub''] \<mapsto> Dir)"

definition ex_fs_root :: filesystem where
  "ex_fs_root = [[] \<mapsto> Dir]"

text \<open>The root-only file system after \<^verbatim>\<open>/x\<close> and \<^verbatim>\<open>/x/y\<close> have been created.\<close>

definition ex_fs_xy :: filesystem where
  "ex_fs_xy = ex_fs_root([''x''] \<mapsto> Dir, [''x'', ''y''] \<mapsto> Dir)"

text \<open>Maps from \<^verbatim>\<open>/s\<close> to \<^verbatim>\<open>/t\<close>, from nothing to \<^verbatim>\<open>/t\<close>, and from \<^verbatim>\<open>/t\<close> to itself.\<close>

definition ex_map :: DirectoryMap where
  "ex_map = DirectoryMap_init (Directory_init ''/t'') (Some (Directory_init ''/s''))"

definition ex_map_nosrc :: DirectoryMap where
  "ex_map_nosrc = DirectoryMap_init (Directory_init ''/t'') None"

definition ex_map_same :: DirectoryMap where
  "ex_map_same = DirectoryMap_init (Directory_init ''/t'') (Some (Directory_init ''/t''))"

text \<open>One loaded module, and data directories as on Linux.\<close>

definition ex_modules :: "string \<rightharpoonup> pymodule" where
  "ex_modules = [''polite.paths'' \<mapsto> \<lparr>mod_file = ''/p/paths.py''\<rparr>]"

definition ex_user_data_dir :: "string \<Rightarrow> string \<Rightarrow> bool \<Rightarrow> string" where
  "ex_user_data_dir package company roaming = ''/home/user/.local/share/'' @ package"

definition ex_site_data_dir :: "string \<Rightarrow> string \<Rightarrow> string" where
  "ex_site_data_dir package company = ''/usr/local/share/'' @ package"

section \<open>Facts about paths and the file system\<close>

lemmas ex_defs = ex_fs_def ex_fs_new_def ex_fs_sub_def ex_fs_root_def ex_fs_xy_def
  ex_map_def ex_map_nosrc_def ex_map_same_def DirectoryMap_init_def Directory_init_def

lemmas path_defs = get_path_def os_path_join_def lookup_def resolve_def step_def
  os_path_isdir_def os_path_isfile_def os_path_samefile_def isdir_def isfile_def
  target_exists_def

lemma splitc_not_Nil [simp]: "splitc p \<noteq> []"
  by (induction p) auto

text \<open>An extension without a separator lengthens the last component only.\<close>

lemma splitc_append_ext:
  "CHR ''/'' \<notin> set e \<Longrightarrow> splitc (p @ e) = butlast (splitc p) @ [last (splitc p) @ e]"
proof (induction p)
  case Nil
  then show ?case
  proof (induction e)
    case Nil
    then show ?case by simp
  next
    case (Cons x e)
    then have "splitc e = [e]" by simp
    with Cons.prems show ?case by auto
  qed
next
  case (Cons x p)
  then show ?case
    by (cases "splitc p") (auto simp: butlast_tl last_tl hd_append hd_conv_nth)
qed

lemma walk_append:
  "walk fs cur (cs @ ds) = (case walk fs cur cs of None \<Rightarrow> None | Some l \<Rightarrow> walk fs l ds)"
  by (induction cs arbitrary: cur) auto

lemma walk_snoc:
  "walk fs cur (cs @ [c]) = Some loc \<longleftrightarrow>
     (\<exists>par. walk fs cur cs = Some par \<and> fs par = Some Dir \<and> loc = step par c)"
  by (auto simp: walk_append split: option.splits)

text \<open>The walk depends on the file system only through where its directories are.\<close>

lemma walk_same_dirs:
  "(\<And>l. (fs' l = Some Dir) = (fs l = Some Dir)) \<Longrightarrow> walk fs' cur cs = walk fs cur cs"
  by (induction cs arbitrary: cur) auto

lemma os_path_join_ext: "os_path_join a (b @ ''.new'') = os_path_join a b @ ''.new''"
  by (cases b) (auto simp: os_path_join_def)

lemma get_path_ext:
  "get_path d (Some (f @ ''.new'')) = get_path d (Some f) @ ''.new''"
  by (simp add: get_path_def os_path_join_ext)

lemma step_ext_fresh:
  assumes "step par n \<noteq> par"
  shows "step par (n @ ''.new'') = par @ [n @ ''.new'']"
    and "step par n \<noteq> par @ [n @ ''.new'']"
proof -
  have len: "length (n @ ''.new'') \<ge> 4" by simp
  have "n @ ''.new'' \<noteq> []" "n @ ''.new'' \<noteq> ''.''" "n @ ''.new'' \<noteq> ''..''"
    using len by auto
  then show "step par (n @ ''.new'') = par @ [n @ ''.new'']"
    by (simp add: step_def)
  show "step par n \<noteq> par @ [n @ ''.new'']"
  proof
    assume eq: "step par n = par @ [n @ ''.new'']"
    then have "length (step par n) = Suc (length par)" by simp
    then have "step par n = par @ [n]"
      by (auto simp: step_def split: if_splits)
    with eq show False by simp
  qed
qed

text \<open>
  Where a path names a regular file, the path with \<^verbatim>\<open>.new\<close> appended resolves too,
  and to another location in the same directory.
\<close>

lemma resolve_ext:
  assumes "lookup fs p = Some (File old)"
  obtains loc loc' where "resolve fs p = Some loc" and "fs loc = Some (File old)"
    and "resolve fs (p @ ''.new'') = Some loc'" and "loc' \<noteq> loc"
proof -
  from assms obtain loc where loc: "resolve fs p = Some loc" "fs loc = Some (File old)"
    by (auto simp: lookup_def split: option.splits)
  then have w: "walk fs [] (splitc p) = Some loc"
    by (auto simp: resolve_def split: if_splits)
  define cs where "cs = butlast (splitc p)"
  define n where "n = last (splitc p)"
  have sp: "splitc p = cs @ [n]"
    by (simp add: cs_def n_def)
  from w obtain par where par: "walk fs [] cs = Some par" "fs par = Some Dir" "loc = step par n"
    unfolding sp walk_snoc by blast
  from par loc have "step par n \<noteq> par" by auto
  note fresh = step_ext_fresh [OF this]
  have "splitc (p @ ''.new'') = cs @ [n @ ''.new'']"
    using splitc_append_ext [of "''.new''" p] by (simp add: cs_def n_def)
  then have "walk fs [] (splitc (p @ ''.new'')) = Some (par @ [n @ ''.new''])"
    using par fresh by (simp add: walk_snoc)
  then have "resolve fs (p @ ''.new'') = Some (par @ [n @ ''.new''])"
    by (simp add: resolve_def)
  moreover have "par @ [n @ ''.new''] \<noteq> loc"
    using fresh par by auto
  ultimately show thesis using loc that by blast
qed

lemma write_file_at:
  "resolve fs p = Some loc \<Longrightarrow> fs loc \<noteq> Some Dir \<Longrightarrow>
     write_file p content fs = (Inr (), fs(loc \<mapsto> File content))"
  by (simp add: write_file_def)

lemma resolve_after_write:
  "fs loc \<noteq> Some Dir \<Longrightarrow> resolve (fs(loc \<mapsto> File content)) q = resolve fs q"
  unfolding resolve_def by (simp add: walk_same_dirs [of "fs(loc \<mapsto> File content)" fs])

lemma lookup_after_write:
  "fs loc \<noteq> Some Dir \<Longrightarrow>
     lookup (fs(loc \<mapsto> File content)) q =
       (if resolve fs q = Some loc then Some (File content) else lookup fs q)"
  by (auto simp: lookup_def resolve_after_write split: option.splits)

lemma isfile_iff:
  "isfile d f fs \<longleftrightarrow> (\<exists>content. lookup fs (get_path d (Some f)) = Some (File content))"
  by (auto simp: isfile_def os_path_isfile_def split: option.splits node.splits)

section \<open>The conflict policy of \<^verbatim>\<open>copy_file\<close>\<close>

text \<open>
  With the destination present in an existing target directory and \<^verbatim>\<open>overwrite\<close>
  false, \<^verbatim>\<open>copy_file\<close> is \<^verbatim>\<open>shutil.copyfile\<close> to the path with \<^verbatim>\<open>.new\<close> appended,
  unless that path is a directory.
\<close>

lemma copy_file_redirected:
  assumes "source_dir self = Some source"
    and "isdir (target_dir self) fs"
    and "lookup fs (get_path (target_dir self) (Some dst_name)) = Some (File old)"
    and "\<not> os_path_isdir (get_path (target_dir self) (Some dst_name) @ ''.new'') fs"
  shows "copy_file self src_name (Some dst_name) False ''.new'' fs =
     (case shutil_copyfile (get_path source (Some src_name))
             (get_path (target_dir self) (Some dst_name) @ ''.new'') fs of
        (Inl e, fs2) \<Rightarrow> (Inl e, self, fs2)
      | (Inr v, fs2) \<Rightarrow>
          (Inr (),
           self\<lparr>last_copy_path := Some (get_path (target_dir self) (Some dst_name) @ ''.new'')\<rparr>,
           fs2))"
proof -
  have "target_exists self (Some dst_name) fs"
    using assms(3) by (simp add: target_exists_def isfile_iff)
  then have "dst_file_path self dst_name False ''.new'' fs =
      get_path (target_dir self) (Some dst_name) @ ''.new''"
    by (simp add: dst_file_path_def)
  moreover have "makedir (target_dir self) fs = (Inr (), fs)"
    using assms(2) by (simp add: makedir_def)
  ultimately show ?thesis
    using assms(1,4)
    by (simp add: copy_file_def shutil_copy_def Let_def split: prod.splits sum.splits)
qed

lemma shutil_copyfile_ext:
  assumes "lookup fs p = Some (File old)"
    and "lookup fs src = Some (File content)"
    and "\<not> os_path_isdir (p @ ''.new'') fs"
    and "\<not> os_path_samefile src (p @ ''.new'') fs"
  shows "\<exists>fs'. shutil_copyfile src (p @ ''.new'') fs = (Inr (), fs')
     \<and> lookup fs' p = Some (File old) \<and> lookup fs' (p @ ''.new'') = Some (File content)"
proof -
  from assms(1) obtain loc loc' where loc: "resolve fs p = Some loc" "fs loc = Some (File old)"
    "resolve fs (p @ ''.new'') = Some loc'" "loc' \<noteq> loc"
    by (rule resolve_ext)
  from assms(3) loc(3) have nd: "fs loc' \<noteq> Some Dir"
    by (simp add: os_path_isdir_def lookup_def)
  let ?fs' = "fs(loc' \<mapsto> File content)"
  have "shutil_copyfile src (p @ ''.new'') fs = (Inr (), ?fs')"
    using assms(2,4) loc(3) nd by (simp add: shutil_copyfile_def write_file_at)
  moreover have "lookup ?fs' p = Some (File old)"
    using nd loc assms(1) by (simp add: lookup_after_write)
  moreover have "lookup ?fs' (p @ ''.new'') = Some (File content)"
    using nd loc by (simp add: lookup_after_write)
  ultimately show ?thesis by blast
qed

text \<open>Copying a file onto itself is refused, and the file is left as it is.\<close>

lemma shutil_copyfile_samefile:
  assumes "os_path_samefile src dst fs"
  shows "shutil_copyfile src dst fs = (Inl ShutilError, fs)" and "lookup fs dst = lookup fs src"
  using assms
  by (auto simp: shutil_copyfile_def os_path_samefile_def lookup_def split: option.splits)




text \<open>
  C4, as stated, fails: with regular files \<^verbatim>\<open>a\<close> and \<^verbatim>\<open>a.new\<close> in the target
  directory, the call raises \<^verbatim>\<open>IOError\<close> when the source directory has no file
  \<^verbatim>\<open>src_name\<close>, and \<^verbatim>\<open>shutil.Error\<close> when the source file is the very file
  \<^verbatim>\<open>a.new\<close> of the target directory; either way nothing is written and \<^verbatim>\<open>a.new\<close>
  keeps its content.
\<close>

theorem copy_file_replaces_new_counterexample:
  "source_dir ex_map \<noteq> None
     \<and> isfile (target_dir ex_map) ''a'' ex_fs_new
     \<and> isfile (target_dir ex_map) ''a.new'' ex_fs_new
     \<and> copy_file ex_map ''b'' (Some ''a'') False ''.new'' ex_fs_new
          = (Inl IOError, ex_map, ex_fs_new)
     \<and> lookup ex_fs_new ''/t/a.new'' = Some (File ''stale'')
   \<and> source_dir ex_map_same \<noteq> None
     \<and> isfile (target_dir ex_map_same) ''a'' ex_fs_new
     \<and> isfile (target_dir ex_map_same) ''a.new'' ex_fs_new
     \<and> isfile (the (source_dir ex_map_same)) ''a.new'' ex_fs_new
     \<and> copy_file ex_map_same ''a.new'' (Some ''a'') False ''.new'' ex_fs_new
          = (Inl ShutilError, ex_map_same, ex_fs_new)"
  by (simp add: ex_defs path_defs copy_file_def dst_file_path_def makedir_def shutil_copy_def
      shutil_copyfile_def Let_def)

text \<open>
  C4, amended: for every \<^verbatim>\<open>DirectoryMap\<close> with a source directory that holds a regular
  file \<^verbatim>\<open>src_name\<close>, if the target directory exists and holds regular files named
  \<^verbatim>\<open>dst_name\<close> and \<^verbatim>\<open>dst_name + ".new"\<close>, and the source file is not that file
  \<^verbatim>\<open>dst_name + ".new"\<close> itself, then \<^verbatim>\<open>copy_file(src_name, dst_name, overwrite=False)\<close>
  returns and has written the source content to \<^verbatim>\<open>dst_name + ".new"\<close>, whatever that
  file held before: the redirected path is not checked for existence.
\<close>

theorem copy_file_replaces_new:
  assumes "source_dir self = Some source"
    and "isdir (target_dir self) fs"
    and "lookup fs (get_path (target_dir self) (Some dst_name)) = Some (File old)"
    and "lookup fs (get_path (target_dir self) (Some (dst_name @ ''.new''))) = Some (File stale)"
    and "lookup fs (get_path source (Some src_name)) = Some (File content)"
    and "\<not> os_path_samefile (get_path source (Some src_name))
            (get_path (target_dir self) (Some (dst_name @ ''.new''))) fs"
  shows "\<exists>self' fs'.
      copy_file self src_name (Some dst_name) False ''.new'' fs = (Inr (), self', fs')
      \<and> lookup fs' (get_path (target_dir self) (Some (dst_name @ ''.new''))) = Some (File content)"
proof -
  let ?p = "get_path (target_dir self) (Some dst_name)"
  let ?src = "get_path source (Some src_name)"
  from assms(4) have nodir: "\<not> os_path_isdir (?p @ ''.new'') fs"
    by (simp add: os_path_isdir_def get_path_ext)
  from assms(6) have other: "\<not> os_path_samefile ?src (?p @ ''.new'') fs"
    by (simp add: get_path_ext)
  from shutil_copyfile_ext [OF assms(3,5) nodir other] obtain fs' where
    "shutil_copyfile ?src (?p @ ''.new'') fs = (Inr (), fs')"
    "lookup fs' (?p @ ''.new'') = Some (File content)"
    by blast
  with copy_file_redirected [OF assms(1,2,3) nodir, of src_name] show ?thesis
    by (simp add: get_path_ext)
qed

theorem copy_file_replaces_new_witness:
  "lookup ex_fs_new ''/t/a.new'' = Some (File ''stale'')
   \<and> (\<exists>self' fs'.
        copy_file ex_map ''a'' (Some ''a'') False ''.new'' ex_fs_new = (Inr (), self', fs')
        \<and> lookup fs' ''/t/a.new'' = Some (File ''packaged''))"
proof -
  have h1: "source_dir ex_map = Some (Directory_init ''/s'')"
    by (simp add: ex_defs)
  have h2: "isdir (target_dir ex_map) ex_fs_new"
    by (simp add: ex_defs path_defs)
  have h3: "lookup ex_fs_new (get_path (target_dir ex_map) (Some ''a'')) = Some (File ''edited'')"
    by (simp add: ex_defs path_defs)
  have h4: "lookup ex_fs_new (get_path (target_dir ex_map) (Some (''a'' @ ''.new'')))
      = Some (File ''stale'')"
    by (simp add: ex_defs path_defs)
  have h5: "lookup ex_fs_new (get_path (Directory_init ''/s'') (Some ''a''))
      = Some (File ''packaged'')"
    by (simp add: ex_defs path_defs)
  have h6: "\<not> os_path_samefile (get_path (Directory_init ''/s'') (Some ''a''))
              (get_path (target_dir ex_map) (Some (''a'' @ ''.new''))) ex_fs_new"
    by (simp add: ex_defs path_defs)
  have p: "get_path (target_dir ex_map) (Some (''a'' @ ''.new'')) = ''/t/a.new''"
    by (simp add: ex_defs path_defs)
  show ?thesis
    using copy_file_replaces_new [OF h1 h2 h3 h4 h5 h6] h4 unfolding p by simp
qed

section \<open>\<^verbatim>\<open>last_copy_path\<close>\<close>

text \<open>
  A new map has no \<^verbatim>\<open>last_copy_path\<close>. A call of \<^verbatim>\<open>copy_file\<close> that raises leaves the
  map as it was; one that returns has set \<^verbatim>\<open>last_copy_path\<close> to the destination path
  it computed.
\<close>

lemma DirectoryMap_init_last_copy_path:
  "last_copy_path (DirectoryMap_init target source) = None"
  by (simp add: DirectoryMap_init_def)

lemma copy_file_last_copy_path:
  "copy_file self src_name dst_name overwrite new_ext fs = (r, self', fs') \<Longrightarrow>
     self' = (case r of
        Inl e \<Rightarrow> self
      | Inr u \<Rightarrow> self\<lparr>last_copy_path := Some (dst_file_path self
                  (case dst_name of None \<Rightarrow> src_name | Some d \<Rightarrow> d) overwrite new_ext fs)\<rparr>)"
  by (auto simp: copy_file_def Let_def split: option.splits prod.splits sum.splits)

text \<open>
  Where the computed destination is not a directory once the target directory is made,
  it is the path of the file written.
\<close>

lemma copy_file_writes_destination:
  assumes "copy_file self src_name dst_name overwrite new_ext fs = (Inr (), self', fs')"
    and "\<not> os_path_isdir (dst_file_path self
            (case dst_name of None \<Rightarrow> src_name | Some d \<Rightarrow> d) overwrite new_ext fs)
          (snd (makedir (target_dir self) fs))"
  shows "\<exists>content. lookup fs' (dst_file_path self
            (case dst_name of None \<Rightarrow> src_name | Some d \<Rightarrow> d) overwrite new_ext fs)
          = Some (File content)"
proof -
  let ?dst = "dst_file_path self (case dst_name of None \<Rightarrow> src_name | Some d \<Rightarrow> d)
    overwrite new_ext fs"
  obtain fs1 where fs1: "makedir (target_dir self) fs = (Inr (), fs1)"
    using assms(1)
    by (cases "makedir (target_dir self) fs")
      (auto simp: copy_file_def Let_def split: option.splits sum.splits)
  from assms(1) fs1 obtain src where "shutil_copy src ?dst fs1 = (Inr (), fs')"
    by (auto simp: copy_file_def Let_def split: option.splits prod.splits sum.splits)
  with assms(2) fs1 have "shutil_copyfile src ?dst fs1 = (Inr (), fs')"
    by (simp add: shutil_copy_def)
  then obtain content where "write_file ?dst content fs1 = (Inr (), fs')"
    by (auto simp: shutil_copyfile_def split: if_splits option.splits node.splits)
  then obtain loc where "resolve fs1 ?dst = Some loc" "fs1 loc \<noteq> Some Dir"
    "fs' = fs1(loc \<mapsto> File content)"
    by (auto simp: write_file_def split: option.splits if_splits)
  then have "lookup fs' ?dst = Some (File content)"
    by (simp add: lookup_after_write)
  then show ?thesis ..
qed

text \<open>
  Where the computed destination is a directory, \<^verbatim>\<open>shutil.copy\<close> writes the file of the
  source's name inside it, and \<^verbatim>\<open>last_copy_path\<close> is the computed destination all the
  same: here \<^verbatim>\<open>/t/sub\<close>, with the file written at \<^verbatim>\<open>/t/sub/a\<close>.
\<close>

lemma copy_file_into_directory:
  "copy_file ex_map ''a'' (Some ''sub'') False ''.new'' ex_fs_sub =
     (Inr (), ex_map\<lparr>last_copy_path := Some ''/t/sub''\<rparr>,
      ex_fs_sub([''t'', ''sub'', ''a''] \<mapsto> File ''packaged''))
   \<and> lookup ex_fs_sub ''/t/sub'' = Some Dir
   \<and> lookup (ex_fs_sub([''t'', ''sub'', ''a''] \<mapsto> File ''packaged'')) ''/t/sub'' = Some Dir
   \<and> lookup (ex_fs_sub([''t'', ''sub'', ''a''] \<mapsto> File ''packaged'')) ''/t/sub/a''
        = Some (File ''packaged'')"
  by (simp add: ex_defs path_defs copy_file_def dst_file_path_def makedir_def shutil_copy_def
      shutil_copyfile_def write_file_def os_path_basename_def Let_def)

text \<open>
  C9: \<^verbatim>\<open>last_copy_path\<close> is \<^verbatim>\<open>None\<close> at the construction of a \<^verbatim>\<open>DirectoryMap\<close>; after
  a call of \<^verbatim>\<open>copy_file\<close> that returns it is the final destination path, which is the
  path of \<^verbatim>\<open>dst_name\<close> in the target directory with \<^verbatim>\<open>new_ext\<close> appended when the
  file was there and \<^verbatim>\<open>overwrite\<close> was false, and the path of \<^verbatim>\<open>dst_name\<close> otherwise
  (\<^verbatim>\<open>dst_name\<close> defaulting to \<^verbatim>\<open>src_name\<close>); a call that raises leaves the map, and so
  \<^verbatim>\<open>last_copy_path\<close>, as it was.
\<close>

theorem last_copy_path_records_destination:
  "last_copy_path (DirectoryMap_init target source) = None
   \<and> (copy_file self src_name dst_name overwrite new_ext fs = (Inr (), self', fs') \<longrightarrow>
        last_copy_path self' =
          Some (if target_exists self (Some (case dst_name of None \<Rightarrow> src_name | Some d \<Rightarrow> d)) fs
                   \<and> \<not> overwrite
                then get_path (target_dir self)
                       (Some (case dst_name of None \<Rightarrow> src_name | Some d \<Rightarrow> d)) @ new_ext
                else get_path (target_dir self)
                       (Some (case dst_name of None \<Rightarrow> src_name | Some d \<Rightarrow> d))))
   \<and> (copy_file self src_name dst_name overwrite new_ext fs = (Inl e, self', fs') \<longrightarrow>
        self' = self)"
proof (intro conjI impI)
  show "last_copy_path (DirectoryMap_init target source) = None"
    by (rule DirectoryMap_init_last_copy_path)
next
  assume "copy_file self src_name dst_name overwrite new_ext fs = (Inr (), self', fs')"
  from copy_file_last_copy_path [OF this]
  show "last_copy_path self' =
          Some (if target_exists self (Some (case dst_name of None \<Rightarrow> src_name | Some d \<Rightarrow> d)) fs
                   \<and> \<not> overwrite
                then get_path (target_dir self)
                       (Some (case dst_name of None \<Rightarrow> src_name | Some d \<Rightarrow> d)) @ new_ext
                else get_path (target_dir self)
                       (Some (case dst_name of None \<Rightarrow> src_name | Some d \<Rightarrow> d)))"
    by (simp add: dst_file_path_def)
next
  assume "copy_file self src_name dst_name overwrite new_ext fs = (Inl e, self', fs')"
  from copy_file_last_copy_path [OF this] show "self' = self"
    by simp
qed

theorem last_copy_path_records_destination_witness:
  "last_copy_path ex_map = None
   \<and> target_exists ex_map (Some ''a'') ex_fs
   \<and> copy_file ex_map ''a'' None False ''.new'' ex_fs =
        (Inr (), ex_map\<lparr>last_copy_path := Some ''/t/a.new''\<rparr>,
         ex_fs([''t'', ''a.new''] \<mapsto> File ''packaged''))
   \<and> last_copy_path (ex_map\<lparr>last_copy_path := Some ''/t/a.new''\<rparr>) =
        Some (get_path (target_dir ex_map) (Some ''a'') @ ''.new'')
   \<and> copy_file ex_map ''b'' None False ''.new'' ex_fs = (Inl IOError, ex_map, ex_fs)"
proof -
  have h1: "target_exists ex_map (Some ''a'') ex_fs"
    by (simp add: ex_defs path_defs)
  have h2: "copy_file ex_map ''a'' None False ''.new'' ex_fs =
        (Inr (), ex_map\<lparr>last_copy_path := Some ''/t/a.new''\<rparr>,
         ex_fs([''t'', ''a.new''] \<mapsto> File ''packaged''))"
    by (simp add: ex_defs path_defs copy_file_def dst_file_path_def makedir_def shutil_copy_def
        shutil_copyfile_def write_file_def Let_def)
  have h3: "copy_file ex_map ''b'' None False ''.new'' ex_fs = (Inl IOError, ex_map, ex_fs)"
    by (simp add: ex_defs path_defs copy_file_def dst_file_path_def makedir_def shutil_copy_def
        shutil_copyfile_def Let_def)
  note returned = last_copy_path_records_destination
    [where target = "Directory_init ''/t''" and source = "Some (Directory_init ''/s'')"
      and self = ex_map and src_name = "''a''" and dst_name = None and overwrite = False
      and new_ext = "''.new''" and fs = ex_fs
      and self' = "ex_map\<lparr>last_copy_path := Some ''/t/a.new''\<rparr>"
      and fs' = "ex_fs([''t'', ''a.new''] \<mapsto> File ''packaged'')"]
  from returned have a: "last_copy_path ex_map = None"
    by (simp add: ex_map_def)
  from returned h1 h2
  have b: "last_copy_path (ex_map\<lparr>last_copy_path := Some ''/t/a.new''\<rparr>) =
        Some (get_path (target_dir ex_map) (Some ''a'') @ ''.new'')"
    by simp
  from a h1 h2 b h3 show ?thesis
    by blast
qed

section \<open>Maps without a source, and \<^verbatim>\<open>safe_copy_file\<close>\<close>

text \<open>
  C3: for every \<^verbatim>\<open>DirectoryMap\<close> whose source directory is \<^verbatim>\<open>None\<close>, \<^verbatim>\<open>copy_file\<close>
  raises the \<^verbatim>\<open>ValueError\<close> that the spec calls \<^verbatim>\<open>InvalidState\<close>, and so does
  \<^verbatim>\<open>safe_copy_file\<close> when the target file is absent; at the \<^verbatim>\<open>raise\<close> the file system
  and the map, \<^verbatim>\<open>last_copy_path\<close> included, are as they were before the call.
\<close>

theorem copy_file_without_source:
  assumes "source_dir self = None"
  shows "copy_file self src_name dst_name overwrite new_ext fs =
           (Inl (ValueError ''No source directory is given.''), self, fs)
     \<and> (\<not> target_exists self (Some (case dst_name of None \<Rightarrow> src_name | Some d \<Rightarrow> d)) fs \<longrightarrow>
          safe_copy_file self src_name dst_name fs =
            (Inl (ValueError ''No source directory is given.''), self, fs))"
  using assms by (simp add: copy_file_def safe_copy_file_def)

theorem copy_file_without_source_witness:
  "source_dir ex_map_nosrc = None
   \<and> copy_file ex_map_nosrc ''a'' None False ''.new'' ex_fs =
        (Inl (ValueError ''No source directory is given.''), ex_map_nosrc, ex_fs)
   \<and> \<not> target_exists ex_map_nosrc (Some ''b'') ex_fs
   \<and> safe_copy_file ex_map_nosrc ''b'' None ex_fs =
        (Inl (ValueError ''No source directory is given.''), ex_map_nosrc, ex_fs)"
proof -
  have h1: "source_dir ex_map_nosrc = None"
    by (simp add: ex_defs)
  have h2: "\<not> target_exists ex_map_nosrc (Some ''b'') ex_fs"
    by (simp add: ex_defs path_defs)
  show ?thesis
    using h1 h2
      copy_file_without_source
        [OF h1, where src_name = "''a''" and dst_name = None and overwrite = False
          and new_ext = "''.new''" and fs = ex_fs]
      copy_file_without_source
        [OF h1, where src_name = "''b''" and dst_name = None and fs = ex_fs]
    by simp
qed

lemma safe_copy_file_times_noop:
  "target_exists self (Some (case dst_name of None \<Rightarrow> src_name | Some d \<Rightarrow> d)) fs \<Longrightarrow>
     safe_copy_file_times n src_name dst_name (self, fs) = (self, fs)"
  by (induction n) (simp_all add: safe_copy_file_def)

text \<open>
  C2: for every \<^verbatim>\<open>DirectoryMap\<close>, \<^verbatim>\<open>safe_copy_file(src_name, dst_name)\<close>, with
  \<^verbatim>\<open>dst_name\<close> defaulting to \<^verbatim>\<open>src_name\<close>, is the call of \<^verbatim>\<open>copy_file\<close> when
  \<^verbatim>\<open>target_exists\<close> is false of the file name, and changes nothing when it is true; so
  any number of calls after the target file exists leave the map and the file system
  as they are.
\<close>

theorem safe_copy_file_iff_absent:
  "(target_exists self (Some (case dst_name of None \<Rightarrow> src_name | Some d \<Rightarrow> d)) fs \<longrightarrow>
      safe_copy_file self src_name dst_name fs = (Inr (), self, fs)
      \<and> safe_copy_file_times n src_name dst_name (self, fs) = (self, fs))
   \<and> (\<not> target_exists self (Some (case dst_name of None \<Rightarrow> src_name | Some d \<Rightarrow> d)) fs \<longrightarrow>
      safe_copy_file self src_name dst_name fs =
        copy_file self src_name dst_name False ''.new'' fs)"
  by (simp add: safe_copy_file_times_noop) (simp add: safe_copy_file_def)

theorem safe_copy_file_iff_absent_witness:
  "target_exists ex_map (Some ''a'') ex_fs
   \<and> safe_copy_file ex_map ''a'' None ex_fs = (Inr (), ex_map, ex_fs)
   \<and> safe_copy_file_times 3 ''a'' None (ex_map, ex_fs) = (ex_map, ex_fs)
   \<and> \<not> target_exists ex_map (Some ''b'') ex_fs
   \<and> safe_copy_file ex_map ''a'' (Some ''b'') ex_fs =
        copy_file ex_map ''a'' (Some ''b'') False ''.new'' ex_fs"
proof -
  have h1: "target_exists ex_map (Some ''a'') ex_fs"
    by (simp add: ex_defs path_defs)
  have h2: "\<not> target_exists ex_map (Some ''b'') ex_fs"
    by (simp add: ex_defs path_defs)
  show ?thesis
    using h1 h2
      safe_copy_file_iff_absent
        [where self = ex_map and src_name = "''a''" and dst_name = None and fs = ex_fs and n = 3]
      safe_copy_file_iff_absent
        [where self = ex_map and src_name = "''a''" and dst_name = "Some ''b''" and fs = ex_fs]
    by simp
qed

section \<open>\<^verbatim>\<open>Directory\<close>\<close>

text \<open>
  C8: for every \<^verbatim>\<open>Directory\<close> \<open>d\<close> and file name \<open>f\<close>, \<^verbatim>\<open>d.isfile(f)\<close> is true if and
  only if the path \<^verbatim>\<open>d.get_path(f)\<close> leads to a regular file, and \<^verbatim>\<open>get_path(f)\<close> is the
  join of the stored path with \<open>f\<close>, computed without the file system.
\<close>

theorem isfile_iff_regular_file:
  "(isfile d f fs \<longleftrightarrow> (\<exists>content. lookup fs (get_path d (Some f)) = Some (File content)))
   \<and> get_path d (Some f) = os_path_join (dir_path d) f"
  by (simp add: isfile_iff) (simp add: get_path_def)

subsection \<open>\<^verbatim>\<open>makedir\<close>\<close>

text \<open>\<^verbatim>\<open>os.makedirs\<close> keeps every node there is.\<close>

lemma makedirs_walk_keeps:
  "makedirs_walk fs cur cs = (r, fs') \<Longrightarrow> fs l = Some x \<Longrightarrow> fs' l = Some x"
proof (induction cs arbitrary: fs cur)
  case Nil
  then show ?case by (simp split: if_splits)
next
  case (Cons c cs)
  show ?case
  proof (cases "fs cur = Some Dir")
    case False
    with Cons.prems show ?thesis by simp
  next
    case True
    show ?thesis
    proof (cases "fs (step cur c) = None")
      case None: True
      with \<open>fs cur = Some Dir\<close> Cons.prems(1)
      have "makedirs_walk (fs(step cur c \<mapsto> Dir)) (step cur c) cs = (r, fs')" by simp
      moreover from None Cons.prems(2) have "(fs(step cur c \<mapsto> Dir)) l = Some x" by auto
      ultimately show ?thesis by (rule Cons.IH)
    next
      case False
      with \<open>fs cur = Some Dir\<close> Cons.prems(1)
      have "makedirs_walk fs (step cur c) cs = (r, fs')" by simp
      then show ?thesis using Cons.prems(2) by (rule Cons.IH)
    qed
  qed
qed

text \<open>When it returns, the path leads to a directory.\<close>

lemma makedirs_walk_reaches:
  "makedirs_walk fs cur cs = (Inr l, fs') \<Longrightarrow> walk fs' cur cs = Some l \<and> fs' l = Some Dir"
proof (induction cs arbitrary: fs cur)
  case Nil
  then show ?case by (simp split: if_splits)
next
  case (Cons c cs)
  from Cons.prems have cur: "fs cur = Some Dir"
    by (simp split: if_splits)
  define fs1 where "fs1 = (if fs (step cur c) = None then fs(step cur c \<mapsto> Dir) else fs)"
  have run: "makedirs_walk fs1 (step cur c) cs = (Inr l, fs')"
    using Cons.prems cur by (auto simp: fs1_def split: if_splits)
  have "fs1 cur = Some Dir"
    using cur by (auto simp: fs1_def)
  with run have "fs' cur = Some Dir"
    by (rule makedirs_walk_keeps)
  with Cons.IH [OF run] show ?case by simp
qed

lemma os_makedirs_isdir:
  assumes "os_makedirs name fs = (Inr (), fs')"
  shows "os_path_isdir name fs'"
proof -
  from assms have name: "name \<noteq> []"
    by (auto simp: os_makedirs_def split: if_splits)
  with assms obtain leaf where "makedirs_walk fs [] (splitc name) = (Inr leaf, fs')"
    by (auto simp: os_makedirs_def split: prod.splits sum.splits if_splits)
  then have "walk fs' [] (splitc name) = Some leaf \<and> fs' leaf = Some Dir"
    by (rule makedirs_walk_reaches)
  with name show ?thesis
    by (simp add: os_path_isdir_def lookup_def resolve_def)
qed

lemma makedir_isdir: "makedir d fs = (Inr (), fs') \<Longrightarrow> isdir d fs'"
  using os_makedirs_isdir [of "dir_path d" fs fs']
  by (auto simp: makedir_def isdir_def get_path_def split: if_splits)

text \<open>Every location a walk from the root arrives at lies below directories only.\<close>

lemma walk_below_dirs:
  "walk fs cur cs = Some l \<Longrightarrow> \<forall>k<length cur. fs (take k cur) = Some Dir \<Longrightarrow>
     \<forall>k<length l. fs (take k l) = Some Dir"
proof (induction cs arbitrary: cur)
  case Nil
  then show ?case by simp
next
  case (Cons c cs)
  from Cons.prems(1) have cur: "fs cur = Some Dir" and w: "walk fs (step cur c) cs = Some l"
    by (simp_all split: if_splits)
  have "\<forall>k<length (step cur c). fs (take k (step cur c)) = Some Dir"
  proof (intro allI impI)
    fix k assume k: "k < length (step cur c)"
    consider "step cur c = cur" | "step cur c = butlast cur" | "step cur c = cur @ [c]"
      by (cases "c = [] \<or> c = ''.''"; cases "c = ''..''"; simp add: step_def)
    then show "fs (take k (step cur c)) = Some Dir"
    proof cases
      case 1
      with k Cons.prems(2) show ?thesis by simp
    next
      case 2
      with k have "k < length cur" by simp
      moreover from 2 k have "take k (step cur c) = take k cur"
        by (simp add: take_butlast)
      ultimately show ?thesis using Cons.prems(2) by simp
    next
      case 3
      with k have "k < length cur \<or> k = length cur" by auto
      with 3 cur Cons.prems(2) show ?thesis by auto
    qed
  qed
  with w show ?case by (rule Cons.IH)
qed

text \<open>
  C5: for every \<^verbatim>\<open>Directory\<close>, \<^verbatim>\<open>makedir()\<close> changes nothing and does not raise when
  \<^verbatim>\<open>isdir()\<close> is true, and is \<^verbatim>\<open>os.makedirs\<close> of the stored path when it is false; when
  it returns, the stored path leads to a directory, through directories only, and a
  second call returns too and leaves the file system as the first call left it.
\<close>

theorem makedir_idempotent:
  "(isdir d fs \<longrightarrow> makedir d fs = (Inr (), fs))
   \<and> (\<not> isdir d fs \<longrightarrow> makedir d fs = os_makedirs (dir_path d) fs)
   \<and> (makedir d fs = (Inr (), fs') \<longrightarrow>
        isdir d fs'
        \<and> (\<forall>l k. resolve fs' (dir_path d) = Some l \<longrightarrow> k \<le> length l \<longrightarrow>
              fs' (take k l) = Some Dir)
        \<and> makedir d fs' = (Inr (), fs'))"
proof (intro conjI impI allI)
  assume "isdir d fs"
  then show "makedir d fs = (Inr (), fs)" by (simp add: makedir_def)
next
  assume "\<not> isdir d fs"
  then show "makedir d fs = os_makedirs (dir_path d) fs" by (simp add: makedir_def get_path_def)
next
  assume "makedir d fs = (Inr (), fs')"
  then show "isdir d fs'" by (rule makedir_isdir)
next
  fix l k
  assume ok: "makedir d fs = (Inr (), fs')" and l: "resolve fs' (dir_path d) = Some l"
    and k: "k \<le> length l"
  from ok have "isdir d fs'" by (rule makedir_isdir)
  with l have top: "fs' l = Some Dir"
    by (simp add: isdir_def os_path_isdir_def lookup_def)
  from l have "walk fs' [] (splitc (dir_path d)) = Some l"
    by (simp add: resolve_def split: if_splits)
  then have "\<forall>k<length l. fs' (take k l) = Some Dir"
    by (rule walk_below_dirs) simp
  with top k show "fs' (take k l) = Some Dir"
    by (cases "k = length l") auto
next
  assume "makedir d fs = (Inr (), fs')"
  then have "isdir d fs'" by (rule makedir_isdir)
  then show "makedir d fs' = (Inr (), fs')" by (simp add: makedir_def)
qed

theorem makedir_idempotent_witness:
  "isdir (Directory_init ''/t'') ex_fs
   \<and> makedir (Directory_init ''/t'') ex_fs = (Inr (), ex_fs)
   \<and> \<not> isdir (Directory_init ''/x/y'') ex_fs_root
   \<and> makedir (Directory_init ''/x/y'') ex_fs_root = (Inr (), ex_fs_xy)
   \<and> isdir (Directory_init ''/x/y'') ex_fs_xy
   \<and> ex_fs_xy [''x''] = Some Dir
   \<and> makedir (Directory_init ''/x/y'') ex_fs_xy = (Inr (), ex_fs_xy)"
proof -
  have h1: "isdir (Directory_init ''/t'') ex_fs"
    by (simp add: ex_defs path_defs)
  have h2: "\<not> isdir (Directory_init ''/x/y'') ex_fs_root"
    by (simp add: ex_defs path_defs)
  have h3: "makedir (Directory_init ''/x/y'') ex_fs_root = (Inr (), ex_fs_xy)"
    using h2 by (simp add: ex_defs path_defs makedir_def os_makedirs_def)
  have h4: "resolve ex_fs_xy (dir_path (Directory_init ''/x/y'')) = Some [''x'', ''y'']"
    by (simp add: ex_defs path_defs)
  have h5: "(1::nat) \<le> length [''x'', ''y'']"
    by simp
  from h1 makedir_idempotent [where d = "Directory_init ''/t''" and fs = ex_fs and fs' = ex_fs]
  have a: "makedir (Directory_init ''/t'') ex_fs = (Inr (), ex_fs)"
    by blast
  note made = makedir_idempotent
    [where d = "Directory_init ''/x/y''" and fs = ex_fs_root and fs' = ex_fs_xy]
  from made h3 have b1: "isdir (Directory_init ''/x/y'') ex_fs_xy"
    by blast
  from made h3 have b2: "makedir (Directory_init ''/x/y'') ex_fs_xy = (Inr (), ex_fs_xy)"
    by blast
  from made h3 h4 h5 have "ex_fs_xy (take 1 [''x'', ''y'']) = Some Dir"
    by blast
  then have b3: "ex_fs_xy [''x''] = Some Dir"
    by simp
  from h1 a h2 h3 b1 b3 b2 show ?thesis
    by blast
qed

subsection \<open>The stored path\<close>

lemma fst_call: "fst (call c st) = fst st"
  by (cases c; cases st) simp_all

lemma fst_calls: "fst (calls cs st) = fst st"
  unfolding calls_def by (induction cs arbitrary: st) (simp_all add: fst_call)

text \<open>
  C10: for every \<^verbatim>\<open>Directory\<close>, after any sequence of calls of \<^verbatim>\<open>get_path\<close>,
  \<^verbatim>\<open>isdir\<close>, \<^verbatim>\<open>isfile\<close> and \<^verbatim>\<open>makedir\<close> the stored path is what it was at
  construction, and \<^verbatim>\<open>get_path\<close> returns what it returned before.
\<close>

theorem directory_path_never_mutated:
  "dir_path (fst (calls cs (d, fs))) = dir_path d
   \<and> get_path (fst (calls cs (d, fs))) file_name = get_path d file_name"
  by (simp add: fst_calls)

section \<open>The constructors\<close>

text \<open>The directory of the example module, and a directory built relative to it.\<close>

lemma module_dir_example: "module_dir \<lparr>mod_file = ''/p/paths.py''\<rparr> = ''/p''"
  by code_simp

lemma ObjDirectory_init_example:
  "ObjDirectory_init ex_modules ''polite.paths'' [''..'', ''config''] ex_fs =
     (Inr \<lparr>dir_path = ''/p/../config''\<rparr>, ex_fs)"
  by (simp add: ObjDirectory_init_def ex_modules_def Directory_init_def module_dir_example
      os_path_join_all_def os_path_join_def)

text \<open>
  C6: constructing an \<^verbatim>\<open>ObjDirectory\<close> for a module name that is not a key of
  \<^verbatim>\<open>sys.modules\<close> raises \<^verbatim>\<open>KeyError\<close>, a \<^verbatim>\<open>LookupError\<close>; and each of the three
  constructors leaves the file system as it is.
\<close>

theorem constructors_no_creation:
  "(sys_modules module_name = None \<longrightarrow>
      fst (ObjDirectory_init sys_modules module_name paths fs) = Inl (KeyError module_name)
      \<and> is_LookupError (KeyError module_name))
   \<and> snd (ObjDirectory_init sys_modules module_name paths fs) = fs
   \<and> snd (UserDataDirectory_init user_data_dir package company paths fs) = fs
   \<and> snd (SiteDataDirectory_init site_data_dir package company paths fs) = fs"
  by (simp add: ObjDirectory_init_def UserDataDirectory_init_def SiteDataDirectory_init_def
      split: option.splits)

theorem constructors_no_creation_witness:
  "ex_modules ''missing'' = None
   \<and> fst (ObjDirectory_init ex_modules ''missing'' [''config''] ex_fs) = Inl (KeyError ''missing'')
   \<and> is_LookupError (KeyError ''missing'')
   \<and> snd (ObjDirectory_init ex_modules ''missing'' [''config''] ex_fs) = ex_fs
   \<and> snd (UserDataDirectory_init ex_user_data_dir ''polite'' ''DTOcean'' [''config''] ex_fs) = ex_fs
   \<and> snd (SiteDataDirectory_init ex_site_data_dir ''polite'' ''DTOcean'' [''config''] ex_fs) = ex_fs"
proof -
  have h: "ex_modules ''missing'' = None"
    by (simp add: ex_modules_def)
  show ?thesis
    using h constructors_no_creation
      [of ex_modules "''missing''" "[''config'']" ex_fs ex_user_data_dir "''polite''"
        "''DTOcean''" ex_site_data_dir]
    by simp
qed

end
